theory Spec2Isabelle
  imports Complex_Main "HOL-Library.Sublist"
begin

section \<open>Data model\<close>

text \<open>
  The shapes the pages mirror from the REST backend. Identities are natural numbers,
  dates are day numbers, and a fine is a whole amount of rupees. A borrow record refers
  to its book and its member by identity.
\<close>

datatype member_status = ACTIVE | SUSPENDED

datatype borrow_status = BORROWED | RETURNED | OVERDUE

record book =
  id_book :: nat
  title_book :: string
  author_book :: string
  availableQuantity :: nat
  totalQuantity_book :: nat
  isbn_book :: "string option"
  category_book :: "string option"

record member =
  id_member :: nat
  name :: string
  email :: string
  membershipId :: string
  phone :: string
  registrationDate :: int
  status_member :: member_status

record borrow_record =
  id_borrow :: nat
  book :: nat
  member :: nat
  borrowDate :: int
  dueDate :: int
  returnDate :: "int option"
  fine :: int
  status :: borrow_status

section \<open>The API module and the effects of a handler\<close>

text \<open>
  A rejected axios promise carries an error object; the handlers read only
  \<^verbatim>\<open>err.response?.data?.message\<close> from it, which is absent when any link of the
  chain is. A response is that error or the data of the reply.
\<close>

datatype api_error = ApiError (server_message: "string option")

type_synonym 'a response = "api_error + 'a"

text \<open>The unary plus applied to a selection, kept symbolic.\<close>

datatype js_number = ToNumber string

record add_form =
  title :: string
  author :: string
  isbn :: string
  category :: string
  totalQuantity :: int
  publicationYear :: int

text \<open>One constructor for each entry of \<^verbatim>\<open>src/lib/api.ts\<close> that a page calls.\<close>

datatype api_call =
    Books_getAll
  | Books_getAvailable
  | Books_add add_form
  | Members_getAll
  | Borrow_borrowBook js_number js_number
  | Borrow_returnBook nat
  | Borrow_getActive
  | Borrow_getOverdue

text \<open>
  What a handler does besides updating its view state, in the order it does it:
  requests sent, blocking dialogs (\<^verbatim>\<open>alert\<close>), console logging and navigation.
\<close>

datatype event =
    Call api_call
  | Alert string
  | ConsoleError string
  | RouterPush string

text \<open>
  \<^verbatim>\<open>err.response?.data?.message || fallback\<close>: the empty string is falsy, so it
  gives the fallback as an absent message does.
\<close>

definition message_or :: "api_error \<Rightarrow> string \<Rightarrow> string" where
  "message_or err fallback =
     (case server_message err of
        None \<Rightarrow> fallback
      | Some m \<Rightarrow> if m = [] then fallback else m)"

text \<open>The dialogs shown and the requests sent, read off a handler's events.\<close>

fun alert_of :: "event \<Rightarrow> string option" where
  "alert_of (Alert m) = Some m"
| "alert_of _ = None"

definition alerts :: "event list \<Rightarrow> string list" where
  "alerts evs = List.map_filter alert_of evs"

fun call_of :: "event \<Rightarrow> api_call option" where
  "call_of (Call c) = Some c"
| "call_of _ = None"

definition calls :: "event list \<Rightarrow> api_call list" where
  "calls evs = List.map_filter call_of evs"

subsection \<open>Numbers as text\<close>

definition digit_char :: "nat \<Rightarrow> char" where
  "digit_char d = ''0123456789'' ! (d mod 10)"

fun decimal :: "nat \<Rightarrow> string" where
  "decimal n = (if n < 10 then [digit_char n] else decimal (n div 10) @ [digit_char (n mod 10)])"

declare decimal.simps [simp del]

text \<open>The rupee sign, as the bytes of its UTF-8 encoding.\<close>

definition rupee :: string where
  "rupee = [CHR 0xE2, CHR 0x82, CHR 0xB9]"

subsection \<open>Numbers of the page\<close>

text \<open>
  A number of the page is an IEEE double: a rational that has a 53-bit significand, or
  an infinity. NaN and the sign of zero are left out: no number below is NaN, and the
  page shows minus zero as zero.
\<close>

datatype number = Double rat | Infinity | NegInfinity

fun log2 :: "nat \<Rightarrow> nat" where
  "log2 n = (if n < 2 then 0 else Suc (log2 (n div 2)))"

declare log2.simps [simp del]

text \<open>The binary exponent of a positive rational: the integer part of its binary logarithm.\<close>

definition exponent :: "rat \<Rightarrow> int" where
  "exponent a =
     (if 1 \<le> a then int (log2 (nat \<lfloor>a\<rfloor>))
      else - int (Suc (log2 (nat (\<lceil>1 / a\<rceil> - 1)))))"

definition pow2 :: "int \<Rightarrow> rat" where
  "pow2 e = (if 0 \<le> e then 2 ^ nat e else 1 / 2 ^ nat (- e))"

definition round_half_even :: "rat \<Rightarrow> int" where
  "round_half_even m =
     (let f = \<lfloor>m\<rfloor>; r = m - of_int f
      in if r < 1 / 2 then f else if 1 / 2 < r then f + 1 else if even f then f else f + 1)"

text \<open>
  Rounding to the nearest double, a tie going to the even significand: the significand
  has 53 bits, the least exponent is that of the subnormal numbers, and a result of
  \<open>2 ^ 1024\<close> or more is an infinity.
\<close>

definition to_double :: "rat \<Rightarrow> number" where
  "to_double x =
     (if x = 0 then Double 0
      else
        let e = max (exponent \<bar>x\<bar> - 52) (- 1074);
            y = of_int (round_half_even (\<bar>x\<bar> / pow2 e)) * pow2 e
        in if pow2 1024 \<le> y then (if 0 < x then Infinity else NegInfinity)
           else Double (if 0 < x then y else - y))"

text \<open>A whole number of a JSON reply, as \<^verbatim>\<open>JSON.parse\<close> reads it.\<close>

definition JSON_number :: "int \<Rightarrow> number" where
  "JSON_number n = to_double (of_int n)"

text \<open>The quotient of a number by a positive constant.\<close>

definition divide_by :: "number \<Rightarrow> rat \<Rightarrow> number" where
  "divide_by x c =
     (case x of
        Double a \<Rightarrow> to_double (a / c)
      | Infinity \<Rightarrow> Infinity
      | NegInfinity \<Rightarrow> NegInfinity)"

text \<open>\<^verbatim>\<open>Math.round\<close>: the nearest integer, a half going up.\<close>

definition Math_round :: "number \<Rightarrow> number" where
  "Math_round x =
     (case x of
        Double a \<Rightarrow> Double (of_int \<lfloor>a + 1 / 2\<rfloor>)
      | Infinity \<Rightarrow> Infinity
      | NegInfinity \<Rightarrow> NegInfinity)"

text \<open>The comparison \<^verbatim>\<open>x > 0\<close>.\<close>

definition greater_than_zero :: "number \<Rightarrow> bool" where
  "greater_than_zero x =
     (case x of Double a \<Rightarrow> 0 < a | Infinity \<Rightarrow> True | NegInfinity \<Rightarrow> False)"

text \<open>
  The text of a double of \<open>10 ^ 21\<close> or more, which is a whole number \<open>x\<close>: the
  decimal with the fewest digits that reads back as \<open>x\<close> (the nearest to \<open>x\<close> of
  these, the even one at a tie), in exponent form.
\<close>

definition rounds_to :: "nat \<Rightarrow> nat \<Rightarrow> bool" where
  "rounds_to v x = (to_double (of_nat v) = Double (of_nat x))"

fun shortest :: "nat \<Rightarrow> nat \<Rightarrow> nat" where
  "shortest x 0 = x"
| "shortest x (Suc j) =
     (let u = 10 ^ Suc j; a = (x div u) * u; b = a + u
      in if rounds_to a x \<and> rounds_to b x then
           (if x - a < b - x then a else if b - x < x - a then b
            else if even (a div u) then a else b)
         else if rounds_to a x then a
         else if rounds_to b x then b
         else shortest x j)"

definition strip_zeros :: "string \<Rightarrow> string" where
  "strip_zeros s = rev (dropWhile (\<lambda>c. c = CHR ''0'') (rev s))"

definition ToString_large :: "nat \<Rightarrow> string" where
  "ToString_large x =
     (let v = decimal (shortest x (length (decimal x) - 1)); s = strip_zeros v
      in hd s # (if tl s = [] then [] else ''.'' @ tl s) @ ''e+'' @ decimal (length v - 1))"

text \<open>A count of hundredths written with two decimals.\<close>

definition fixed2 :: "nat \<Rightarrow> string" where
  "fixed2 n =
     (let m = decimal n; m = replicate (3 - length m) CHR ''0'' @ m
      in take (length m - 2) m @ ''.'' @ drop (length m - 2) m)"

text \<open>
  \<^verbatim>\<open>toFixed(2)\<close>: the sign, then the nearest count of hundredths (a half going
  up) for a number below \<open>10 ^ 21\<close>, and the exponent form from there on.
\<close>

definition toFixed2 :: "number \<Rightarrow> string" where
  "toFixed2 x =
     (case x of
        Infinity \<Rightarrow> ''Infinity''
      | NegInfinity \<Rightarrow> ''-Infinity''
      | Double r \<Rightarrow>
          (if r < 0 then ''-'' else []) @
          (if 10 ^ 21 \<le> \<bar>r\<bar> then ToString_large (nat \<lfloor>\<bar>r\<bar>\<rfloor>)
           else fixed2 (nat \<lfloor>\<bar>r\<bar> * 100 + 1 / 2\<rfloor>)))"

section \<open>Dashboard\<close>

record stats =
  books :: nat
  members :: nat
  overdue :: nat

record home_state =
  stats :: stats
  loading_home :: bool

definition Home_init :: home_state where
  "Home_init = \<lparr>stats = \<lparr>books = 0, members = 0, overdue = 0\<rparr>, loading_home = True\<rparr>"

text \<open>
  The effect of \<^verbatim>\<open>Home\<close>: the three requests go out together, and
  \<^verbatim>\<open>Promise.all\<close> rejects as soon as one of them does.
\<close>

definition Home_effect ::
  "book list response \<Rightarrow> member list response \<Rightarrow> borrow_record list response \<Rightarrow>
   home_state \<Rightarrow> home_state \<times> event list" where
  "Home_effect booksRes membersRes overdueRes st =
     (case (booksRes, membersRes, overdueRes) of
        (Inr bs, Inr ms, Inr os) \<Rightarrow>
          (st\<lparr>stats := \<lparr>books = length bs, members = length ms, overdue = length os\<rparr>,
              loading_home := False\<rparr>,
           [Call Books_getAll, Call Members_getAll, Call Borrow_getOverdue])
      | _ \<Rightarrow>
          (st\<lparr>loading_home := False\<rparr>,
           [Call Books_getAll, Call Members_getAll, Call Borrow_getOverdue,
            ConsoleError ''Error loading dashboard:'']))"


section \<open>Books, members and overdue pages\<close>

datatype books_filter = All_books | Available_only

record books_page =
  books_bk :: "book list"
  filter_bk :: books_filter
  loading_bk :: bool

definition BooksPage_effect :: "book list response \<Rightarrow> books_page \<Rightarrow> books_page \<times> event list" where
  "BooksPage_effect res st =
     (if filter_bk st = Available_only then
        (case res of
           Inr bs \<Rightarrow> (st\<lparr>books_bk := bs, loading_bk := False\<rparr>, [Call Books_getAvailable])
         | Inl err \<Rightarrow> (st\<lparr>loading_bk := False\<rparr>,
             [Call Books_getAvailable, ConsoleError ''Error loading available books:'']))
      else
        (case res of
           Inr bs \<Rightarrow> (st\<lparr>books_bk := bs, loading_bk := False\<rparr>, [Call Books_getAll])
         | Inl err \<Rightarrow> (st\<lparr>loading_bk := False\<rparr>,
             [Call Books_getAll, ConsoleError ''Error loading all books:''])))"

record members_page =
  members_mp :: "member list"
  loading_mp :: bool

definition MembersPage_effect ::
  "member list response \<Rightarrow> members_page \<Rightarrow> members_page \<times> event list" where
  "MembersPage_effect res st =
     (case res of
        Inr ms \<Rightarrow> (st\<lparr>members_mp := ms, loading_mp := False\<rparr>, [Call Members_getAll])
      | Inl err \<Rightarrow> (st\<lparr>loading_mp := False\<rparr>,
          [Call Members_getAll, ConsoleError ''Error loading members:'']))"

record overdue_page =
  overdue_op :: "borrow_record list"
  loading_op :: bool

definition OverduePage_effect ::
  "borrow_record list response \<Rightarrow> overdue_page \<Rightarrow> overdue_page \<times> event list" where
  "OverduePage_effect res st =
     (case res of
        Inr os \<Rightarrow> (st\<lparr>overdue_op := os, loading_op := False\<rparr>, [Call Borrow_getOverdue])
      | Inl err \<Rightarrow> (st\<lparr>loading_op := False\<rparr>,
          [Call Borrow_getOverdue, ConsoleError ''Error loading overdue books:'']))"

text \<open>The Days Late badge: \<^verbatim>\<open>Math.round(b.fine / 10)\<close>.\<close>

definition days_late_badge :: "borrow_record \<Rightarrow> number" where
  "days_late_badge b = Math_round (divide_by (JSON_number (fine b)) 10)"

section \<open>Active borrows page\<close>

record active_page =
  borrows :: "borrow_record list"
  loading_ab :: bool

definition fetchActiveBorrows ::
  "borrow_record list response \<Rightarrow> active_page \<Rightarrow> active_page \<times> event list" where
  "fetchActiveBorrows res st =
     (case res of
        Inr bs \<Rightarrow> (st\<lparr>borrows := bs, loading_ab := False\<rparr>, [Call Borrow_getActive])
      | Inl err \<Rightarrow> (st\<lparr>loading_ab := False\<rparr>,
          [Call Borrow_getActive, ConsoleError ''Error loading active borrows:'']))"

text \<open>
  \<^verbatim>\<open>handleReturn\<close>: the first argument is the user's answer to the confirmation
  dialog, the second the reply to the return request.
\<close>

definition handleReturn ::
  "bool \<Rightarrow> borrow_record response \<Rightarrow> nat \<Rightarrow> active_page \<Rightarrow> active_page \<times> event list" where
  "handleReturn confirmed res rid st =
     (if \<not> confirmed then (st, [])
      else case res of
        Inr d \<Rightarrow>
          (st\<lparr>borrows := filter (\<lambda>b. id_borrow b \<noteq> rid) (borrows st)\<rparr>,
           [Call (Borrow_returnBook rid),
            if greater_than_zero (JSON_number (fine d))
            then Alert (''Book returned!'' @ [CHR 0x0A] @ ''Overdue fine: '' @ rupee @
                        toFixed2 (JSON_number (fine d)))
            else Alert ''Book returned on time!''])
      | Inl err \<Rightarrow>
          (st, [Call (Borrow_returnBook rid), ConsoleError ''Error returning book:'',
                Alert ''Error returning book'']))"

section \<open>Borrow page\<close>

record borrow_page =
  books_bp :: "book list"
  members_bp :: "member list"
  selectedBook :: string
  selectedMember :: string
  loading_bp :: bool

definition BorrowPage_effect ::
  "book list response \<Rightarrow> member list response \<Rightarrow> borrow_page \<Rightarrow> borrow_page \<times> event list" where
  "BorrowPage_effect booksRes membersRes st =
     (case (booksRes, membersRes) of
        (Inr bs, Inr ms) \<Rightarrow>
          (st\<lparr>books_bp := bs, members_bp := ms, loading_bp := False\<rparr>,
           [Call Books_getAvailable, Call Members_getAll])
      | _ \<Rightarrow>
          (st\<lparr>loading_bp := False\<rparr>,
           [Call Books_getAvailable, Call Members_getAll, ConsoleError ''Error loading data:'']))"

definition borrow_fallback :: string where
  "borrow_fallback = ''Cannot borrow this book. Check member status and book limits.''"

text \<open>
  \<^verbatim>\<open>handleBorrow\<close>: the replies to the borrow request and to the refresh of the
  available books are its first two arguments. A failed refresh is caught by the same
  handler, after the selections were reset.
\<close>

definition handleBorrow ::
  "borrow_record response \<Rightarrow> book list response \<Rightarrow> borrow_page \<Rightarrow> borrow_page \<times> event list" where
  "handleBorrow borrowRes booksRes st =
     (if selectedBook st = [] \<or> selectedMember st = [] then
        (st, [Alert ''Please select both book and member''])
      else
        let post = Call (Borrow_borrowBook (ToNumber (selectedBook st)) (ToNumber (selectedMember st)))
        in case borrowRes of
          Inl err \<Rightarrow>
            (st, [post, ConsoleError ''Error borrowing book:'', Alert (message_or err borrow_fallback)])
        | Inr d \<Rightarrow>
            (let st1 = st\<lparr>selectedBook := [], selectedMember := []\<rparr>;
                 done = [post, Alert ''Book borrowed successfully! Due in 14 days'',
                         Call Books_getAvailable]
             in case booksRes of
               Inr bs \<Rightarrow> (st1\<lparr>books_bp := bs\<rparr>, done)
             | Inl err \<Rightarrow>
                 (st1, done @ [ConsoleError ''Error borrowing book:'',
                               Alert (message_or err borrow_fallback)])))"

text \<open>The note under the borrow button.\<close>

definition due_date_note :: string where
  "due_date_note = ''Due date will be 14 days from today''"

text \<open>The button is disabled, and the handler unreachable by a click, unless both are chosen.\<close>

definition borrow_button_disabled :: "borrow_page \<Rightarrow> bool" where
  "borrow_button_disabled st = (selectedBook st = [] \<or> selectedMember st = [])"

section \<open>Add-book form\<close>

text \<open>
  The fragment of regular expressions that the ISBN field's \<^verbatim>\<open>pattern\<close> attribute
  uses: the class \<^verbatim>\<open>\d\<close> (the ten ASCII digits), a counted repetition and the
  alternative.
\<close>

datatype regex = Digit | Repeat regex nat | Alt regex regex

definition is_digit :: "char \<Rightarrow> bool" where
  "is_digit c = (c \<in> set ''0123456789'')"

primrec times :: "nat \<Rightarrow> (string \<Rightarrow> string list) \<Rightarrow> string \<Rightarrow> string list" where
  "times 0 m s = [s]"
| "times (Suc n) m s = concat (map (times n m) (m s))"

text \<open>All the ways a prefix of the input matches: the list of what is left over.\<close>

fun rmatch :: "regex \<Rightarrow> string \<Rightarrow> string list" where
  "rmatch Digit s = (case s of [] \<Rightarrow> [] | c # cs \<Rightarrow> if is_digit c then [cs] else [])"
| "rmatch (Repeat r n) s = times n (\<lambda>t. rmatch r t) s"
| "rmatch (Alt a b) s = rmatch a s @ rmatch b s"

text \<open>The browser anchors the pattern at both ends: the whole value has to match.\<close>

definition pattern_matches :: "regex \<Rightarrow> string \<Rightarrow> bool" where
  "pattern_matches p s = ([] \<in> set (rmatch p s))"

text \<open>\<^verbatim>\<open>pattern="\d{10}|\d{13}"\<close>\<close>

definition isbn_pattern :: regex where
  "isbn_pattern = Alt (Repeat Digit 10) (Repeat Digit 13)"

text \<open>
  The ISBN field is \<^verbatim>\<open>required\<close> and has the pattern: an empty value is missing,
  a non-empty one is checked against the pattern.
\<close>

definition isbn_field_valid :: "string \<Rightarrow> bool" where
  "isbn_field_valid v = (v \<noteq> [] \<and> pattern_matches isbn_pattern v)"

text \<open>
  The constraints of the whole form: title and author required, at least one copy, and
  a publication year from 1000 to 2100. The two numeric fields are whole numbers here.
\<close>

definition form_valid :: "add_form \<Rightarrow> bool" where
  "form_valid f =
     (title f \<noteq> [] \<and> author f \<noteq> [] \<and> isbn_field_valid (isbn f) \<and>
      1 \<le> totalQuantity f \<and> 1000 \<le> publicationYear f \<and> publicationYear f \<le> 2100)"

record add_book_page =
  form :: add_form
  submitting :: bool

definition AddBook_init :: add_book_page where
  "AddBook_init =
     \<lparr>form = \<lparr>title = [], author = [], isbn = [], category = [],
              totalQuantity = 1, publicationYear = 2023\<rparr>,
      submitting = False\<rparr>"

definition add_fallback :: string where
  "add_fallback = ''Error adding book. Please check ISBN uniqueness.''"

definition handleSubmit :: "book response \<Rightarrow> add_book_page \<Rightarrow> add_book_page \<times> event list" where
  "handleSubmit res st =
     (case res of
        Inr b \<Rightarrow>
          (st\<lparr>submitting := True\<rparr>,
           [Call (Books_add (form st)), Alert ''Book added successfully!'', RouterPush ''/books''])
      | Inl err \<Rightarrow>
          (st\<lparr>submitting := False\<rparr>,
           [Call (Books_add (form st)), ConsoleError ''Error adding book:'',
            Alert (message_or err add_fallback)]))"

text \<open>
  Pressing the submit button: nothing happens while the button is disabled, the browser
  blocks the submission of a form that violates a constraint, and only otherwise does
  \<^verbatim>\<open>handleSubmit\<close> run.
\<close>

definition press_submit :: "book response \<Rightarrow> add_book_page \<Rightarrow> add_book_page \<times> event list" where
  "press_submit res st =
     (if submitting st then (st, [])
      else if \<not> form_valid (form st) then (st, [])
      else handleSubmit res st)"

section \<open>The backend contract\<close>

text \<open>
  Modelled from the spec: the REST backend, which is not part of the sources; only its
  callers in \<^verbatim>\<open>src/lib/api.ts\<close> are. The definitions of this section follow the
  specification's data model, its lifecycle of a borrow record and its table of
  operations, and the rate of 10 per day that the overdue page documents.
\<close>

text \<open>
  Modelled from the spec: the state the backend owns, the books, the members and the
  borrow records of the data model, with a counter for the identity of the next record.
\<close>

record library =
  lib_books :: "book list"
  lib_members :: "member list"
  lib_records :: "borrow_record list"
  next_id :: nat

text \<open>Modelled from the spec: the reasons for which a borrow or a return fails.\<close>

datatype backend_error =
    Book_not_available
  | Member_not_active
  | Limit_reached
  | Record_not_found
  | Already_returned

text \<open>Modelled from the spec: the due date is the borrow date plus 14 days.\<close>

definition loan_days :: int where
  "loan_days = 14"

text \<open>Modelled from the spec: a borrow needs an active-borrow count below 3.\<close>

definition borrow_limit :: nat where
  "borrow_limit = 3"

text \<open>
  Modelled from the spec: the fixed rate per day late, 10 as the overdue page states it.
\<close>

definition fine_per_day :: int where
  "fine_per_day = 10"

text \<open>Modelled from the spec: the book, member or borrow record of an identity.\<close>

definition find_book :: "library \<Rightarrow> nat \<Rightarrow> book option" where
  "find_book st i = find (\<lambda>b. id_book b = i) (lib_books st)"

definition find_member :: "library \<Rightarrow> nat \<Rightarrow> member option" where
  "find_member st i = find (\<lambda>m. id_member m = i) (lib_members st)"

definition find_record :: "library \<Rightarrow> nat \<Rightarrow> borrow_record option" where
  "find_record st i = find (\<lambda>r. id_borrow r = i) (lib_records st)"

text \<open>Modelled from the spec: a book is available when it has a copy left.\<close>

definition book_available :: "library \<Rightarrow> nat \<Rightarrow> bool" where
  "book_available st i = (case find_book st i of None \<Rightarrow> False | Some b \<Rightarrow> 0 < availableQuantity b)"

text \<open>Modelled from the spec: a member may borrow when its status is ACTIVE.\<close>

definition member_active :: "library \<Rightarrow> nat \<Rightarrow> bool" where
  "member_active st i = (case find_member st i of None \<Rightarrow> False | Some m \<Rightarrow> status_member m = ACTIVE)"

text \<open>Modelled from the spec: the member's count of records with status BORROWED.\<close>

definition active_count :: "library \<Rightarrow> nat \<Rightarrow> nat" where
  "active_count st i = length (filter (\<lambda>r. member r = i \<and> status r = BORROWED) (lib_records st))"

text \<open>
  Modelled from the spec: the change of a book's available copies on a borrow or a
  return.
\<close>

definition adjust_copies :: "nat \<Rightarrow> (nat \<Rightarrow> nat) \<Rightarrow> book list \<Rightarrow> book list" where
  "adjust_copies i f bs =
     map (\<lambda>b. if id_book b = i then b\<lparr>availableQuantity := f (availableQuantity b)\<rparr> else b) bs"

text \<open>
  Modelled from the spec: POST /borrow at day \<open>now\<close>. The three checks are made in
  turn; a refused request leaves the library as it was.
\<close>

definition borrow_book ::
  "int \<Rightarrow> nat \<Rightarrow> nat \<Rightarrow> library \<Rightarrow> (backend_error + borrow_record) \<times> library" where
  "borrow_book now bookId memberId st =
     (if \<not> book_available st bookId then (Inl Book_not_available, st)
      else if \<not> member_active st memberId then (Inl Member_not_active, st)
      else if \<not> active_count st memberId < borrow_limit then (Inl Limit_reached, st)
      else
        let r = \<lparr>id_borrow = next_id st, book = bookId, member = memberId,
                 borrowDate = now, dueDate = now + loan_days, returnDate = None,
                 fine = 0, status = BORROWED\<rparr>
        in (Inr r,
            st\<lparr>lib_books := adjust_copies bookId (\<lambda>n. n - 1) (lib_books st),
               lib_records := lib_records st @ [r],
               next_id := Suc (next_id st)\<rparr>))"

text \<open>Modelled from the spec: the number of days a return at day \<open>now\<close> is late.\<close>

definition daysLate :: "int \<Rightarrow> borrow_record \<Rightarrow> int" where
  "daysLate now r = now - dueDate r"

text \<open>
  Modelled from the spec: the record after its return, with the return date, the fine
  of the days late (if positive) at the fixed rate, and the status overdue for a late
  return and returned otherwise.
\<close>

definition returned :: "int \<Rightarrow> borrow_record \<Rightarrow> borrow_record" where
  "returned now r =
     r\<lparr>returnDate := Some now,
       fine := max 0 (daysLate now r) * fine_per_day,
       status := (if 0 < daysLate now r then OVERDUE else RETURNED)\<rparr>"

text \<open>
  Modelled from the spec: PUT /borrow/{id}/return at day \<open>now\<close>. The fine and the
  return date are final once set, so a record that is no longer BORROWED is refused.
\<close>

definition return_book ::
  "int \<Rightarrow> nat \<Rightarrow> library \<Rightarrow> (backend_error + borrow_record) \<times> library" where
  "return_book now rid st =
     (case find_record st rid of
        None \<Rightarrow> (Inl Record_not_found, st)
      | Some r \<Rightarrow>
          if status r \<noteq> BORROWED then (Inl Already_returned, st)
          else
            (Inr (returned now r),
             st\<lparr>lib_books := adjust_copies (book r) Suc (lib_books st),
                lib_records :=
                  map (\<lambda>x. if id_borrow x = rid then returned now r else x) (lib_records st)\<rparr>))"

text \<open>
  Modelled from the spec: the requests that change the library. The operations on books
  and members (add, update, delete, register) are one request that replaces the two
  lists and leaves the borrow records alone.
\<close>

datatype request =
    Borrow int nat nat
  | Return int nat
  | Catalogue "book list" "member list"

fun handle :: "request \<Rightarrow> library \<Rightarrow> library" where
  "handle (Borrow now b m) st = snd (borrow_book now b m st)"
| "handle (Return now i) st = snd (return_book now i st)"
| "handle (Catalogue bs ms) st = st\<lparr>lib_books := bs, lib_members := ms\<rparr>"

text \<open>Modelled from the spec: the library before any request, and a run of requests.\<close>

definition empty_library :: library where
  "empty_library = \<lparr>lib_books = [], lib_members = [], lib_records = [], next_id = 0\<rparr>"

definition run :: "request list \<Rightarrow> library \<Rightarrow> library" where
  "run reqs st = fold handle reqs st"

text \<open>
  Modelled from the spec: the invariant of the library. Identities of borrow records
  are distinct and below the counter, and a record is BORROWED exactly while it has no
  return date, its fine being zero until then.
\<close>

definition record_ok :: "nat \<Rightarrow> borrow_record \<Rightarrow> bool" where
  "record_ok n r =
     (id_borrow r < n \<and>
      (if status r = BORROWED then returnDate r = None \<and> fine r = 0
       else returnDate r \<noteq> None))"

definition well_formed :: "library \<Rightarrow> bool" where
  "well_formed st =
     (distinct (map id_borrow (lib_records st)) \<and>
      list_all (record_ok (next_id st)) (lib_records st))"

section \<open>Properties of the pages\<close>

subsection \<open>Dashboard statistics\<close>


subsection \<open>The guard of the borrow handler\<close>

text \<open>
  Claim C9. The borrow handler sends a request exactly when both selections are
  non-empty, which is when the borrow button is enabled. When one of them is empty it
  shows the alert asking for both, sends nothing, and returns the view state (books,
  members, both selections) as it was.
\<close>

theorem handleBorrow_guard:
  "(calls (snd (handleBorrow br kr st)) \<noteq> [] \<longleftrightarrow>
      selectedBook st \<noteq> [] \<and> selectedMember st \<noteq> []) \<and>
   (calls (snd (handleBorrow br kr st)) \<noteq> [] \<longleftrightarrow> \<not> borrow_button_disabled st) \<and>
   (selectedBook st = [] \<or> selectedMember st = [] \<longrightarrow>
      handleBorrow br kr st = (st, [Alert ''Please select both book and member'']))"
  by (auto simp: handleBorrow_def calls_def borrow_button_disabled_def Let_def split: sum.splits)

theorem handleBorrow_guard_witness:
  "calls (snd (handleBorrow (Inl (ApiError None)) (Inr [])
      \<lparr>books_bp = [], members_bp = [], selectedBook = ''7'', selectedMember = [],
       loading_bp = False\<rparr>)) = [] \<and>
   handleBorrow (Inl (ApiError None)) (Inr [])
      \<lparr>books_bp = [], members_bp = [], selectedBook = ''7'', selectedMember = [],
       loading_bp = False\<rparr> =
     (\<lparr>books_bp = [], members_bp = [], selectedBook = ''7'', selectedMember = [],
       loading_bp = False\<rparr>, [Alert ''Please select both book and member''])"
  using handleBorrow_guard [of "Inl (ApiError None)" "Inr []"
      "\<lparr>books_bp = [], members_bp = [], selectedBook = ''7'', selectedMember = [],
        loading_bp = False\<rparr>"]
  by (simp add: calls_def)

subsection \<open>Removing a returned record from the list\<close>

text \<open>
  Claim C10. After a confirmed return of the record \<open>rid\<close> that the backend accepted,
  the list of borrows is the previous list without the records whose identity is
  \<open>rid\<close>: the records kept are exactly the others, unchanged and in their previous
  order.
\<close>

theorem handleReturn_removes:
  "borrows (fst (handleReturn True (Inr d) rid st)) =
     filter (\<lambda>b. id_borrow b \<noteq> rid) (borrows st) \<and>
   subseq (borrows (fst (handleReturn True (Inr d) rid st))) (borrows st) \<and>
   set (borrows (fst (handleReturn True (Inr d) rid st))) =
     {b \<in> set (borrows st). id_borrow b \<noteq> rid} \<and>
   loading_ab (fst (handleReturn True (Inr d) rid st)) = loading_ab st"
  by (simp add: handleReturn_def)

subsection \<open>The Days Late badge\<close>

lemma log2_bounds: "1 \<le> n \<Longrightarrow> 2 ^ log2 n \<le> n \<and> n < 2 ^ Suc (log2 n)"
proof (induction n rule: log2.induct)
  case (1 n)
  show ?case
  proof (cases "n < 2")
    case True
    then show ?thesis using "1.prems" by (simp add: log2.simps)
  next
    case False
    then have "1 \<le> n div 2" by simp
    with "1.IH" False have ih: "2 ^ log2 (n div 2) \<le> n div 2" "n div 2 < 2 ^ Suc (log2 (n div 2))"
      by simp_all
    have l: "log2 n = Suc (log2 (n div 2))" using False by (simp add: log2.simps)
    from ih show ?thesis unfolding l by simp linarith
  qed
qed

lemma round_half_even_int: "round_half_even (of_int i) = i"
  by (simp add: round_half_even_def)

lemma pow2_upto_52: "k \<le> 52 \<Longrightarrow> pow2 (int k - 52) = 1 / 2 ^ (52 - k)"
  by (cases "k = 52") (simp_all add: pow2_def nat_diff_distrib')

lemma to_double_nat_exact:
  assumes "1 \<le> n" and "n < 2 ^ 53"
  shows "to_double (of_nat n) = Double (of_nat n)"
proof -
  have "2 ^ log2 n \<le> n" using log2_bounds assms(1) by simp
  then have "(2::nat) ^ log2 n < 2 ^ 53" using assms(2) by linarith
  then have "log2 n < 53"
    by (simp only: power_strict_increasing_iff [of 2] one_less_numeral_iff semiring_norm)
  then have k: "log2 n \<le> 52" by simp
  have n0: "(of_nat n :: rat) \<noteq> 0" "0 < (of_nat n :: rat)" using assms(1) by simp_all
  have ex: "exponent \<bar>of_nat n\<bar> = int (log2 n)"
    using assms(1) by (simp add: exponent_def)
  have e: "max (exponent \<bar>of_nat n\<bar> - 52) (- 1074) = int (log2 n) - 52"
    unfolding ex by simp
  have q: "\<bar>of_nat n :: rat\<bar> / pow2 (int (log2 n) - 52) = of_int (int (n * 2 ^ (52 - log2 n)))"
    by (simp add: pow2_upto_52 [OF k])
  have y: "of_int (round_half_even (\<bar>of_nat n :: rat\<bar> / pow2 (int (log2 n) - 52))) *
      pow2 (int (log2 n) - 52) = (of_nat n :: rat)"
    unfolding q round_half_even_int by (simp add: pow2_upto_52 [OF k])
  have "(of_nat n :: rat) < of_nat (2 ^ 53)" using assms(2) by (simp only: of_nat_less_iff)
  also have "\<dots> \<le> pow2 1024" by (simp add: pow2_def)
  finally have small: "\<not> pow2 1024 \<le> (of_nat n :: rat)" by simp
  show ?thesis
    unfolding to_double_def Let_def e y using n0 small by simp
qed

text \<open>
  Claim C7, amended. For a record whose fine is \<open>d\<close> days at 10 a day, with \<open>d\<close> at
  least 1 and the fine below \<open>2 ^ 53\<close>, the badge computed from the fine,
  \<^verbatim>\<open>Math.round(fine / 10)\<close>, is \<open>d\<close>: below that bound the fine and the quotient
  are doubles without rounding.
\<close>

theorem days_late_left_inverse:
  "fine b = int d * 10 \<Longrightarrow> 1 \<le> d \<Longrightarrow> d * 10 < 2 ^ 53 \<Longrightarrow>
     days_late_badge b = Double (of_nat d)"
proof -
  assume f: "fine b = int d * 10" and d: "1 \<le> d" and bound: "d * 10 < 2 ^ 53"
  have "JSON_number (fine b) = to_double (of_nat (d * 10))"
    by (simp add: JSON_number_def f)
  also have "\<dots> = Double (of_nat (d * 10))"
    using d bound by (intro to_double_nat_exact) simp_all
  finally have parsed: "JSON_number (fine b) = Double (of_nat (d * 10))" .
  have "divide_by (JSON_number (fine b)) 10 = to_double (of_nat d)"
    unfolding parsed by (simp add: divide_by_def)
  also have "\<dots> = Double (of_nat d)"
    using d bound by (intro to_double_nat_exact) simp_all
  finally have "divide_by (JSON_number (fine b)) 10 = Double (of_nat d)" .
  then show ?thesis
    by (simp add: days_late_badge_def Math_round_def floor_eq_iff)
qed

theorem days_late_left_inverse_witness:
  "days_late_badge \<lparr>id_borrow = 1, book = 2, member = 3, borrowDate = 0, dueDate = 14,
      returnDate = Some 18, fine = 40, status = OVERDUE\<rparr> = Double 4"
  using days_late_left_inverse [of "\<lparr>id_borrow = 1, book = 2, member = 3, borrowDate = 0,
      dueDate = 14, returnDate = Some 18, fine = 40, status = OVERDUE\<rparr>" 4]
  by simp

lemma log2_a: "log2 36028797018963980 = 55"
  by (simp add: log2.simps)

lemma log2_b: "log2 3602879701896398 = 51"
  by (simp add: log2.simps)

lemma parse_a: "to_double 36028797018963980 = Double 36028797018963984"
proof -
  have ex: "exponent \<bar>36028797018963980\<bar> = 55"
    by (simp add: exponent_def log2_a)
  have e: "max (55 - 52) (- 1074) = (3::int)" by simp
  have p: "pow2 3 = 8" by (simp add: pow2_def)
  have f: "\<lfloor>\<bar>36028797018963980 :: rat\<bar> / 8\<rfloor> = 4503599627370497"
    by (simp add: floor_eq_iff)
  have r: "round_half_even (\<bar>36028797018963980\<bar> / 8) = 4503599627370498"
    unfolding round_half_even_def Let_def f by simp
  show ?thesis
    unfolding to_double_def Let_def ex e p r by (simp add: pow2_def)
qed

lemma divide_a: "to_double (36028797018963984 / 10) = Double (7205759403792797 / 2)"
proof -
  have fl: "\<lfloor>\<bar>36028797018963984 / 10 :: rat\<bar>\<rfloor> = 3602879701896398"
    by (simp add: floor_eq_iff)
  have ex: "exponent \<bar>36028797018963984 / 10\<bar> = 51"
    unfolding exponent_def fl by (simp add: log2_b)
  have e: "max (51 - 52) (- 1074) = (- 1::int)" by simp
  have p: "pow2 (- 1) = 1 / 2" by (simp add: pow2_def)
  have f: "\<lfloor>\<bar>36028797018963984 / 10 :: rat\<bar> / (1 / 2)\<rfloor> = 7205759403792796"
    by (simp add: floor_eq_iff)
  have r: "round_half_even (\<bar>36028797018963984 / 10\<bar> / (1 / 2)) = 7205759403792797"
    unfolding round_half_even_def Let_def f by simp
  show ?thesis
    unfolding to_double_def Let_def ex e p r by (simp add: pow2_def)
qed

text \<open>
  Claim C7, as stated, has no bound on the days late. A fine of 36028797018963980,
  which is 3602879701896398 days at 10 a day, is read as the double 36028797018963984;
  its quotient by 10 is rounded to 3602879701896398.5, and the badge shows
  3602879701896399.
\<close>

theorem days_late_rounding_counterexample:
  "fine \<lparr>id_borrow = 1, book = 2, member = 3, borrowDate = 0, dueDate = 14,
      returnDate = Some 3602879701896412, fine = 36028797018963980, status = OVERDUE\<rparr> =
     3602879701896398 * 10 \<and>
   days_late_badge \<lparr>id_borrow = 1, book = 2, member = 3, borrowDate = 0, dueDate = 14,
      returnDate = Some 3602879701896412, fine = 36028797018963980, status = OVERDUE\<rparr> =
     Double 3602879701896399 \<and>
   days_late_badge \<lparr>id_borrow = 1, book = 2, member = 3, borrowDate = 0, dueDate = 14,
      returnDate = Some 3602879701896412, fine = 36028797018963980, status = OVERDUE\<rparr> \<noteq>
     Double 3602879701896398"
proof -
  have "Math_round (divide_by (JSON_number 36028797018963980) 10) = Double 3602879701896399"
    unfolding JSON_number_def of_int_numeral parse_a divide_by_def number.case divide_a
    by (simp add: Math_round_def floor_eq_iff)
  then show ?thesis by (simp add: days_late_badge_def)
qed

subsection \<open>The ISBN field\<close>

lemma times_digits:
  assumes nil: "m [] = []"
    and cons: "\<And>c cs. m (c # cs) = (if is_digit c then [cs] else [])"
  shows "times n m s =
     (if n \<le> length s \<and> list_all is_digit (take n s) then [drop n s] else [])"
proof (induction n arbitrary: s)
  case 0
  show ?case by simp
next
  case (Suc n)
  show ?case
  proof (cases s)
    case Nil
    then show ?thesis by (simp add: nil)
  next
    case (Cons c cs)
    show ?thesis
    proof (cases "is_digit c")
      case True
      then have "times (Suc n) m s = times n m cs" by (simp add: Cons cons)
      then show ?thesis using True by (simp add: Suc.IH Cons)
    next
      case False
      then have "times (Suc n) m s = []" by (simp add: Cons cons)
      then show ?thesis using False by (simp add: Cons)
    qed
  qed
qed

lemma digits_exactly:
  "[] \<in> set (rmatch (Repeat Digit n) s) \<longleftrightarrow> length s = n \<and> list_all is_digit s"
proof -
  have "rmatch (Repeat Digit n) s =
      (if n \<le> length s \<and> list_all is_digit (take n s) then [drop n s] else [])"
    unfolding rmatch.simps(2) by (rule times_digits) simp_all
  then show ?thesis by auto
qed

text \<open>
  Claim C4. The ISBN field of the add-book form accepts a value exactly when it consists
  of 10 decimal digits or of 13 decimal digits. In particular, pressing submit with an
  ISBN of length 9 runs no handler: no request is sent and the page is unchanged.
\<close>

theorem isbn_ten_or_thirteen_digits:
  "(isbn_field_valid v \<longleftrightarrow> (length v = 10 \<or> length v = 13) \<and> list_all is_digit v) \<and>
   (length (isbn (form st)) = 9 \<longrightarrow> press_submit res st = (st, []))"
proof -
  have a: "isbn_field_valid w \<longleftrightarrow> (length w = 10 \<or> length w = 13) \<and> list_all is_digit w" for w
    unfolding isbn_field_valid_def pattern_matches_def isbn_pattern_def
    by (auto simp: digits_exactly simp del: rmatch.simps(2))
  have b: "length (isbn (form st)) = 9 \<Longrightarrow> \<not> form_valid (form st)"
    using a [of "isbn (form st)"] by (simp add: form_valid_def)
  show ?thesis using a [of v] b by (simp add: press_submit_def)
qed

theorem isbn_ten_or_thirteen_digits_witness:
  "isbn_field_valid ''9780131103'' \<and>
   press_submit (Inl (ApiError None))
     \<lparr>form = \<lparr>title = ''The C Programming Language'', author = ''Kernighan'',
              isbn = ''978013110'', category = [], totalQuantity = 1,
              publicationYear = 1988\<rparr>,
      submitting = False\<rparr> =
     (\<lparr>form = \<lparr>title = ''The C Programming Language'', author = ''Kernighan'',
               isbn = ''978013110'', category = [], totalQuantity = 1,
               publicationYear = 1988\<rparr>,
       submitting = False\<rparr>, [])"
  using isbn_ten_or_thirteen_digits [of "''9780131103''"
      "\<lparr>form = \<lparr>title = ''The C Programming Language'', author = ''Kernighan'',
               isbn = ''978013110'', category = [], totalQuantity = 1,
               publicationYear = 1988\<rparr>,
        submitting = False\<rparr>" "Inl (ApiError None)"]
  by (simp add: is_digit_def)

subsection \<open>Failed requests\<close>

lemma message_or_cases:
  "message_or err fb = fb \<or> server_message err = Some (message_or err fb)"
  by (simp add: message_or_def split: option.split)

text \<open>
  Claim C3, as stated, asks for a dialog after every failed request, page loads
  included. A failed load of the active-borrows page shows none: the error goes to the
  console only.
\<close>

theorem page_load_failure_counterexample:
  "alerts (snd (fetchActiveBorrows (Inl (ApiError (Some ''Service unavailable'')))
      \<lparr>borrows = [], loading_ab = True\<rparr>)) = []"
  by (simp add: fetchActiveBorrows_def alerts_def)

text \<open>
  Claim C3, amended. A failed submit of a borrow, return or add-book request shows one
  dialog. For borrow and add-book it is the server's message when the error carries a
  non-empty one, and the generic text of the page otherwise; for return it is a generic
  text. A failed page-load request (dashboard, books, members, overdue, active borrows,
  borrow page) is logged to the console, ends the loading state and shows no dialog.
\<close>

theorem failed_submit_alerts:
  "(selectedBook bp \<noteq> [] \<and> selectedMember bp \<noteq> [] \<and>
    server_message err = Some m \<and> m \<noteq> [] \<longrightarrow>
      alerts (snd (handleBorrow (Inl err) kr bp)) = [m]) \<and>
   (selectedBook bp \<noteq> [] \<and> selectedMember bp \<noteq> [] \<and>
    (server_message err = None \<or> server_message err = Some []) \<longrightarrow>
      alerts (snd (handleBorrow (Inl err) kr bp)) =
        [''Cannot borrow this book. Check member status and book limits.'']) \<and>
   (server_message err = Some m \<and> m \<noteq> [] \<longrightarrow>
      alerts (snd (handleSubmit (Inl err) ap)) = [m]) \<and>
   (server_message err = None \<or> server_message err = Some [] \<longrightarrow>
      alerts (snd (handleSubmit (Inl err) ap)) =
        [''Error adding book. Please check ISBN uniqueness.'']) \<and>
   alerts (snd (handleReturn True (Inl err) rid ab)) = [''Error returning book''] \<and>
   fetchActiveBorrows (Inl err) ab =
     (ab\<lparr>loading_ab := False\<rparr>,
      [Call Borrow_getActive, ConsoleError ''Error loading active borrows:'']) \<and>
   OverduePage_effect (Inl err) op =
     (op\<lparr>loading_op := False\<rparr>,
      [Call Borrow_getOverdue, ConsoleError ''Error loading overdue books:'']) \<and>
   MembersPage_effect (Inl err) mp =
     (mp\<lparr>loading_mp := False\<rparr>, [Call Members_getAll, ConsoleError ''Error loading members:'']) \<and>
   BooksPage_effect (Inl err) bk =
     (bk\<lparr>loading_bk := False\<rparr>,
      if filter_bk bk = Available_only
      then [Call Books_getAvailable, ConsoleError ''Error loading available books:'']
      else [Call Books_getAll, ConsoleError ''Error loading all books:'']) \<and>
   BorrowPage_effect (Inl err) mr bp =
     (bp\<lparr>loading_bp := False\<rparr>,
      [Call Books_getAvailable, Call Members_getAll, ConsoleError ''Error loading data:'']) \<and>
   BorrowPage_effect kr (Inl err) bp =
     (bp\<lparr>loading_bp := False\<rparr>,
      [Call Books_getAvailable, Call Members_getAll, ConsoleError ''Error loading data:'']) \<and>
   Home_effect (Inl err) mr orr hm =
     (hm\<lparr>loading_home := False\<rparr>,
      [Call Books_getAll, Call Members_getAll, Call Borrow_getOverdue,
       ConsoleError ''Error loading dashboard:'']) \<and>
   Home_effect kr (Inl err) orr hm =
     (hm\<lparr>loading_home := False\<rparr>,
      [Call Books_getAll, Call Members_getAll, Call Borrow_getOverdue,
       ConsoleError ''Error loading dashboard:'']) \<and>
   Home_effect kr mr (Inl err) hm =
     (hm\<lparr>loading_home := False\<rparr>,
      [Call Books_getAll, Call Members_getAll, Call Borrow_getOverdue,
       ConsoleError ''Error loading dashboard:''])"
proof -
  have 1: "selectedBook bp \<noteq> [] \<and> selectedMember bp \<noteq> [] \<and>
    server_message err = Some m \<and> m \<noteq> [] \<longrightarrow>
      alerts (snd (handleBorrow (Inl err) kr bp)) = [m]"
    by (simp add: handleBorrow_def alerts_def message_or_def)
  have 2: "selectedBook bp \<noteq> [] \<and> selectedMember bp \<noteq> [] \<and>
    (server_message err = None \<or> server_message err = Some []) \<longrightarrow>
      alerts (snd (handleBorrow (Inl err) kr bp)) =
        [''Cannot borrow this book. Check member status and book limits.'']"
    by (auto simp: handleBorrow_def alerts_def message_or_def borrow_fallback_def)
  have 3: "server_message err = Some m \<and> m \<noteq> [] \<longrightarrow>
      alerts (snd (handleSubmit (Inl err) ap)) = [m]"
    by (simp add: handleSubmit_def alerts_def message_or_def)
  have 4: "server_message err = None \<or> server_message err = Some [] \<longrightarrow>
      alerts (snd (handleSubmit (Inl err) ap)) =
        [''Error adding book. Please check ISBN uniqueness.'']"
    by (auto simp: handleSubmit_def alerts_def message_or_def add_fallback_def)
  have 5: "alerts (snd (handleReturn True (Inl err) rid ab)) = [''Error returning book'']"
    by (simp add: handleReturn_def alerts_def)
  have 6: "fetchActiveBorrows (Inl err) ab =
     (ab\<lparr>loading_ab := False\<rparr>,
      [Call Borrow_getActive, ConsoleError ''Error loading active borrows:''])"
    by (simp add: fetchActiveBorrows_def)
  have 7: "OverduePage_effect (Inl err) op =
     (op\<lparr>loading_op := False\<rparr>,
      [Call Borrow_getOverdue, ConsoleError ''Error loading overdue books:''])"
    by (simp add: OverduePage_effect_def)
  have 8: "MembersPage_effect (Inl err) mp =
     (mp\<lparr>loading_mp := False\<rparr>, [Call Members_getAll, ConsoleError ''Error loading members:''])"
    by (simp add: MembersPage_effect_def)
  have 9: "BooksPage_effect (Inl err) bk =
     (bk\<lparr>loading_bk := False\<rparr>,
      if filter_bk bk = Available_only
      then [Call Books_getAvailable, ConsoleError ''Error loading available books:'']
      else [Call Books_getAll, ConsoleError ''Error loading all books:''])"
    by (simp add: BooksPage_effect_def)
  have 10: "BorrowPage_effect (Inl err) mr bp =
     (bp\<lparr>loading_bp := False\<rparr>,
      [Call Books_getAvailable, Call Members_getAll, ConsoleError ''Error loading data:''])"
    "BorrowPage_effect kr (Inl err) bp =
     (bp\<lparr>loading_bp := False\<rparr>,
      [Call Books_getAvailable, Call Members_getAll, ConsoleError ''Error loading data:''])"
    by (simp_all add: BorrowPage_effect_def split: sum.split)
  have 11: "Home_effect (Inl err) mr orr hm =
     (hm\<lparr>loading_home := False\<rparr>,
      [Call Books_getAll, Call Members_getAll, Call Borrow_getOverdue,
       ConsoleError ''Error loading dashboard:''])"
    "Home_effect kr (Inl err) orr hm =
     (hm\<lparr>loading_home := False\<rparr>,
      [Call Books_getAll, Call Members_getAll, Call Borrow_getOverdue,
       ConsoleError ''Error loading dashboard:''])"
    "Home_effect kr mr (Inl err) hm =
     (hm\<lparr>loading_home := False\<rparr>,
      [Call Books_getAll, Call Members_getAll, Call Borrow_getOverdue,
       ConsoleError ''Error loading dashboard:''])"
    by (simp_all add: Home_effect_def split: sum.split)
  show ?thesis
    using 1 2 3 4 5 6 7 8 9 10 11 by blast
qed

theorem failed_submit_alerts_witness:
  "alerts (snd (handleBorrow (Inl (ApiError (Some ''Member is suspended''))) (Inr [])
      \<lparr>books_bp = [], members_bp = [], selectedBook = ''7'', selectedMember = ''2'',
       loading_bp = False\<rparr>)) = [''Member is suspended''] \<and>
   alerts (snd (handleBorrow (Inl (ApiError None)) (Inr [])
      \<lparr>books_bp = [], members_bp = [], selectedBook = ''7'', selectedMember = ''2'',
       loading_bp = False\<rparr>)) =
     [''Cannot borrow this book. Check member status and book limits.''] \<and>
   alerts (snd (handleBorrow (Inl (ApiError (Some []))) (Inr [])
      \<lparr>books_bp = [], members_bp = [], selectedBook = ''7'', selectedMember = ''2'',
       loading_bp = False\<rparr>)) =
     [''Cannot borrow this book. Check member status and book limits.''] \<and>
   alerts (snd (handleSubmit (Inl (ApiError (Some ''ISBN already exists''))) AddBook_init)) =
     [''ISBN already exists''] \<and>
   alerts (snd (handleSubmit (Inl (ApiError None)) AddBook_init)) =
     [''Error adding book. Please check ISBN uniqueness.''] \<and>
   alerts (snd (handleSubmit (Inl (ApiError (Some []))) AddBook_init)) =
     [''Error adding book. Please check ISBN uniqueness.''] \<and>
   alerts (snd (handleReturn True (Inl (ApiError (Some ''Record not found''))) 5
      \<lparr>borrows = [], loading_ab = False\<rparr>)) = [''Error returning book''] \<and>
   snd (fetchActiveBorrows (Inl (ApiError (Some ''Service unavailable'')))
      \<lparr>borrows = [], loading_ab = True\<rparr>) =
     [Call Borrow_getActive, ConsoleError ''Error loading active borrows:'']"
proof -
  let ?bp = "\<lparr>books_bp = [], members_bp = [], selectedBook = ''7'', selectedMember = ''2'',
       loading_bp = False\<rparr>"
  have sel: "selectedBook ?bp \<noteq> [] \<and> selectedMember ?bp \<noteq> []" by simp
  note a = failed_submit_alerts [where bp = ?bp and kr = "Inr []" and ap = AddBook_init
      and err = "ApiError (Some ''Member is suspended'')" and m = "''Member is suspended''"]
  note b = failed_submit_alerts [where bp = ?bp and kr = "Inr []" and ap = AddBook_init
      and err = "ApiError None"]
  note c = failed_submit_alerts [where bp = ?bp and kr = "Inr []" and ap = AddBook_init
      and err = "ApiError (Some [])"]
  note d = failed_submit_alerts [where ap = AddBook_init and rid = 5
      and ab = "\<lparr>borrows = [], loading_ab = False\<rparr>"
      and err = "ApiError (Some ''ISBN already exists'')" and m = "''ISBN already exists''"]
  note e = failed_submit_alerts [where rid = 5
      and ab = "\<lparr>borrows = [], loading_ab = False\<rparr>"
      and err = "ApiError (Some ''Record not found'')"]
  note f = failed_submit_alerts [where ab = "\<lparr>borrows = [], loading_ab = True\<rparr>"
      and err = "ApiError (Some ''Service unavailable'')"]
  show ?thesis using sel a b c d e f by simp
qed

section \<open>Properties of the backend contract\<close>

lemma find_append_id:
  "find P (xs @ ys) = (case find P xs of None \<Rightarrow> find P ys | Some x \<Rightarrow> Some x)"
  by (induction xs) auto

lemma find_replace:
  assumes "id_borrow r' = rid"
  shows "find (\<lambda>x. id_borrow x = i) (map (\<lambda>x. if id_borrow x = rid then r' else x) xs) =
     (case find (\<lambda>x. id_borrow x = i) xs of
        None \<Rightarrow> None
      | Some y \<Rightarrow> Some (if i = rid then r' else y))"
  using assms by (induction xs) auto

lemma find_member_distinct:
  "distinct (map id_borrow xs) \<Longrightarrow> r \<in> set xs \<Longrightarrow>
     find (\<lambda>x. id_borrow x = id_borrow r) xs = Some r"
  by (induction xs) (auto simp: rev_image_eqI)

lemma find_record_in: "find_record st i = Some r \<Longrightarrow> r \<in> set (lib_records st) \<and> id_borrow r = i"
  unfolding find_record_def by (auto simp: find_Some_iff)

lemma id_returned [simp]: "id_borrow (returned now r) = id_borrow r"
  by (simp add: returned_def)

lemma well_formed_empty: "well_formed empty_library"
  by (simp add: well_formed_def empty_library_def)

lemma record_ok_mono: "record_ok n r \<Longrightarrow> record_ok (Suc n) r"
  by (simp add: record_ok_def)

lemma well_formed_borrow:
  assumes "well_formed st"
  shows "well_formed (snd (borrow_book now b m st))"
proof -
  have "\<forall>r\<in>set (lib_records st). id_borrow r < next_id st"
    using assms by (auto simp: well_formed_def list_all_iff record_ok_def)
  then have "next_id st \<notin> id_borrow ` set (lib_records st)" by auto
  moreover have "list_all (record_ok (Suc (next_id st))) (lib_records st)"
    using assms by (auto simp: well_formed_def list_all_iff record_ok_mono)
  ultimately show ?thesis
    using assms by (simp add: borrow_book_def well_formed_def Let_def record_ok_def)
qed

lemma record_ok_returned:
  "record_ok n r \<Longrightarrow> record_ok n (returned now r)"
  by (simp add: record_ok_def returned_def)

lemma map_ids_replace:
  "id_borrow r' = rid \<Longrightarrow>
     map id_borrow (map (\<lambda>x. if id_borrow x = rid then r' else x) xs) = map id_borrow xs"
  by (induction xs) auto

lemma well_formed_return:
  assumes "well_formed st"
  shows "well_formed (snd (return_book now i st))"
proof (cases "find_record st i")
  case None
  then show ?thesis using assms by (simp add: return_book_def)
next
  case (Some r)
  then have r: "r \<in> set (lib_records st)" "id_borrow r = i"
    using find_record_in by auto
  then have ok: "record_ok (next_id st) (returned now r)"
    using assms by (auto simp: well_formed_def list_all_iff record_ok_returned)
  have ids: "map id_borrow (map (\<lambda>x. if id_borrow x = i then returned now r else x) (lib_records st))
      = map id_borrow (lib_records st)"
    by (rule map_ids_replace) (simp add: r)
  show ?thesis
    using assms Some ok ids
    by (auto simp: return_book_def well_formed_def list_all_iff simp del: map_map)
qed

lemma well_formed_handle: "well_formed st \<Longrightarrow> well_formed (handle q st)"
proof (cases q)
  case (Borrow now b m)
  assume "well_formed st"
  then show ?thesis using Borrow by (simp add: well_formed_borrow)
next
  case (Return now i)
  assume "well_formed st"
  then show ?thesis using Return by (simp add: well_formed_return)
next
  case (Catalogue bs ms)
  assume "well_formed st"
  then show ?thesis using Catalogue by (simp add: well_formed_def)
qed

lemma well_formed_run: "well_formed st \<Longrightarrow> well_formed (run reqs st)"
  unfolding run_def by (induction reqs arbitrary: st) (auto simp: well_formed_handle)

lemma find_record_distinct:
  "well_formed st \<Longrightarrow> r \<in> set (lib_records st) \<Longrightarrow> find_record st (id_borrow r) = Some r"
  unfolding find_record_def well_formed_def by (simp add: find_member_distinct)

lemma borrow_keeps:
  assumes "find_record st i = Some r"
  shows "find_record (snd (borrow_book now b m st)) i = Some r"
  using assms by (simp add: borrow_book_def find_record_def Let_def find_append_id)

lemma return_other:
  assumes "find_record st i = Some r" "i \<noteq> j \<or> status r \<noteq> BORROWED"
  shows "find_record (snd (return_book now j st)) i = Some r"
proof (cases "find_record st j")
  case None
  then show ?thesis using assms by (simp add: return_book_def)
next
  case (Some x)
  then have idx: "id_borrow x = j" using find_record_in by auto
  show ?thesis
  proof (cases "status x = BORROWED")
    case False
    then show ?thesis using assms Some by (simp add: return_book_def)
  next
    case True
    then have ne: "i \<noteq> j" using assms Some by auto
    have "find (\<lambda>y. id_borrow y = i)
        (map (\<lambda>y. if id_borrow y = j then returned now x else y) (lib_records st)) = Some r"
      using assms(1) ne idx by (simp add: find_replace find_record_def)
    then show ?thesis using Some True by (simp add: return_book_def find_record_def)
  qed
qed

lemma return_this:
  assumes "find_record st i = Some r" "status r = BORROWED"
  shows "return_book now i st =
     (Inr (returned now r), snd (return_book now i st)) \<and>
     find_record (snd (return_book now i st)) i = Some (returned now r)"
proof -
  have idr: "id_borrow r = i" using assms find_record_in by auto
  have "find (\<lambda>y. id_borrow y = i)
      (map (\<lambda>y. if id_borrow y = i then returned now r else y) (lib_records st)) =
      Some (returned now r)"
    using assms(1) idr by (simp add: find_replace find_record_def)
  then show ?thesis using assms by (simp add: return_book_def find_record_def)
qed

text \<open>
  Claim C2. A return at day \<open>now\<close> of a record that is BORROWED succeeds; the
  resulting record, which is also the one stored, has its return date set to \<open>now\<close>
  and its fine equal to the days late, if positive, times 10: zero for a return on time
  or early, and the days late times 10 from one day late on.
\<close>

theorem return_sets_fine:
  assumes "find_record st rid = Some r" and "status r = BORROWED"
  shows "\<exists>r'. fst (return_book now rid st) = Inr r' \<and>
     find_record (snd (return_book now rid st)) rid = Some r' \<and>
     returnDate r' = Some now \<and>
     fine r' = max 0 (daysLate now r) * 10 \<and>
     (daysLate now r \<le> 0 \<longrightarrow> fine r' = 0) \<and>
     (1 \<le> daysLate now r \<longrightarrow> fine r' = daysLate now r * 10)"
proof -
  have "fst (return_book now rid st) = Inr (returned now r)"
    using return_this [OF assms, of now] by (metis fst_conv)
  moreover have "find_record (snd (return_book now rid st)) rid = Some (returned now r)"
    using return_this [OF assms, of now] by simp
  moreover have "returnDate (returned now r) = Some now"
    "fine (returned now r) = max 0 (daysLate now r) * 10"
    by (simp_all add: returned_def fine_per_day_def)
  ultimately show ?thesis by (auto simp: max_def)
qed

theorem return_sets_fine_witness:
  "fst (return_book 118 0
      \<lparr>lib_books = [], lib_members = [],
       lib_records = [\<lparr>id_borrow = 0, book = 1, member = 1, borrowDate = 100, dueDate = 114,
                        returnDate = None, fine = 0, status = BORROWED\<rparr>],
       next_id = 1\<rparr>) =
     Inr \<lparr>id_borrow = 0, book = 1, member = 1, borrowDate = 100, dueDate = 114,
          returnDate = Some 118, fine = 40, status = OVERDUE\<rparr>"
proof -
  have f: "find_record
      \<lparr>lib_books = [], lib_members = [],
       lib_records = [\<lparr>id_borrow = 0, book = 1, member = 1, borrowDate = 100, dueDate = 114,
                        returnDate = None, fine = 0, status = BORROWED\<rparr>],
       next_id = 1\<rparr> 0 =
     Some \<lparr>id_borrow = 0, book = 1, member = 1, borrowDate = 100, dueDate = 114,
           returnDate = None, fine = 0, status = BORROWED\<rparr>"
    by (simp add: find_record_def)
  have s: "status \<lparr>id_borrow = 0, book = 1, member = 1, borrowDate = 100, dueDate = 114,
           returnDate = None, fine = 0, status = BORROWED\<rparr> = BORROWED"
    by simp
  show ?thesis
    using return_sets_fine [OF f s, of 118]
    by (simp add: return_book_def find_record_def returned_def daysLate_def fine_per_day_def)
qed

text \<open>
  Claim C6. In every state reached from the empty library, a BORROWED record has no
  return date and a fine of zero. A request leaves a BORROWED record as it is unless it
  is the return of that record, which stores the record with its return date and fine
  set and a status other than BORROWED. A record that is no longer BORROWED is left as
  it is by every request.
\<close>

theorem lifecycle:
  assumes "st = run reqs empty_library" and "r \<in> set (lib_records st)"
  shows "(status r = BORROWED \<longrightarrow> returnDate r = None \<and> fine r = 0) \<and>
     (status r \<noteq> BORROWED \<longrightarrow> find_record (handle q st) (id_borrow r) = Some r) \<and>
     (status r = BORROWED \<longrightarrow>
        find_record (handle q st) (id_borrow r) = Some r \<or>
        (\<exists>now. q = Return now (id_borrow r) \<and>
           find_record (handle q st) (id_borrow r) = Some (returned now r) \<and>
           status (returned now r) \<noteq> BORROWED \<and>
           returnDate (returned now r) = Some now \<and>
           fine (returned now r) = max 0 (daysLate now r) * 10))"
proof -
  have wf: "well_formed st"
    using assms(1) well_formed_run [OF well_formed_empty] by simp
  then have found: "find_record st (id_borrow r) = Some r"
    using assms(2) by (rule find_record_distinct)
  have a: "status r = BORROWED \<longrightarrow> returnDate r = None \<and> fine r = 0"
    using wf assms(2) by (auto simp: well_formed_def list_all_iff record_ok_def)
  have b: "status r \<noteq> BORROWED \<longrightarrow> find_record (handle q st) (id_borrow r) = Some r"
  proof (cases q)
    case (Borrow now b m)
    then show ?thesis using found by (simp add: borrow_keeps)
  next
    case (Return now j)
    then show ?thesis using found by (simp add: return_other)
  next
    case (Catalogue bs ms)
    then show ?thesis using found by (simp add: find_record_def)
  qed
  have c: "status r = BORROWED \<longrightarrow>
        find_record (handle q st) (id_borrow r) = Some r \<or>
        (\<exists>now. q = Return now (id_borrow r) \<and>
           find_record (handle q st) (id_borrow r) = Some (returned now r) \<and>
           status (returned now r) \<noteq> BORROWED \<and>
           returnDate (returned now r) = Some now \<and>
           fine (returned now r) = max 0 (daysLate now r) * 10)"
  proof (cases q)
    case (Borrow now b m)
    then show ?thesis using found by (simp add: borrow_keeps)
  next
    case (Return now j)
    show ?thesis
    proof (cases "j = id_borrow r")
      case True
      have "status r = BORROWED \<Longrightarrow>
          find_record (snd (return_book now (id_borrow r) st)) (id_borrow r) = Some (returned now r)"
        using return_this [OF found] by simp
      moreover have "status (returned now r) \<noteq> BORROWED"
        "returnDate (returned now r) = Some now"
        "fine (returned now r) = max 0 (daysLate now r) * 10"
        by (simp_all add: returned_def fine_per_day_def)
      ultimately show ?thesis using Return True by simp
    next
      case False
      then show ?thesis using Return found by (simp add: return_other)
    qed
  next
    case (Catalogue bs ms)
    then show ?thesis using found by (simp add: find_record_def)
  qed
  show ?thesis using a b c by blast
qed

theorem lifecycle_witness:
  "returnDate \<lparr>id_borrow = 0, book = 1, member = 1, borrowDate = 100, dueDate = 114,
          returnDate = None, fine = 0, status = BORROWED\<rparr> = None \<and>
   find_record (handle (Return 118 0)
     (run [Catalogue [\<lparr>id_book = 1, title_book = ''Emma'', author_book = ''Austen'',
                 availableQuantity = 2, totalQuantity_book = 2,
                      isbn_book = None, category_book = None\<rparr>]
              [\<lparr>id_member = 1, name = ''Asha'', email = ''asha@example.org'',
                        membershipId = ''M001'', phone = ''5550100'', registrationDate = 90,
                        status_member = ACTIVE\<rparr>],
            Borrow 100 1 1] empty_library)) 0 =
     Some \<lparr>id_borrow = 0, book = 1, member = 1, borrowDate = 100, dueDate = 114,
          returnDate = Some 118, fine = 40, status = OVERDUE\<rparr>"
proof -
  have run: "run [Catalogue [\<lparr>id_book = 1, title_book = ''Emma'', author_book = ''Austen'',
                 availableQuantity = 2, totalQuantity_book = 2,
                      isbn_book = None, category_book = None\<rparr>]
              [\<lparr>id_member = 1, name = ''Asha'', email = ''asha@example.org'',
                        membershipId = ''M001'', phone = ''5550100'', registrationDate = 90,
                        status_member = ACTIVE\<rparr>],
            Borrow 100 1 1] empty_library =
      \<lparr>lib_books = [\<lparr>id_book = 1, title_book = ''Emma'', author_book = ''Austen'',
                 availableQuantity = 1, totalQuantity_book = 2,
                      isbn_book = None, category_book = None\<rparr>],
       lib_members = [\<lparr>id_member = 1, name = ''Asha'', email = ''asha@example.org'',
                        membershipId = ''M001'', phone = ''5550100'', registrationDate = 90,
                        status_member = ACTIVE\<rparr>],
       lib_records = [\<lparr>id_borrow = 0, book = 1, member = 1, borrowDate = 100, dueDate = 114,
          returnDate = None, fine = 0, status = BORROWED\<rparr>],
       next_id = 1\<rparr>"
    by (simp add: run_def empty_library_def borrow_book_def book_available_def
        member_active_def active_count_def find_book_def find_member_def borrow_limit_def
        loan_days_def adjust_copies_def Let_def)
  have mem: "\<lparr>id_borrow = 0, book = 1, member = 1, borrowDate = 100, dueDate = 114,
          returnDate = None, fine = 0, status = BORROWED\<rparr>
      \<in> set (lib_records (run [Catalogue [\<lparr>id_book = 1, title_book = ''Emma'', author_book = ''Austen'',
                 availableQuantity = 2, totalQuantity_book = 2,
                      isbn_book = None, category_book = None\<rparr>]
              [\<lparr>id_member = 1, name = ''Asha'', email = ''asha@example.org'',
                        membershipId = ''M001'', phone = ''5550100'', registrationDate = 90,
                        status_member = ACTIVE\<rparr>],
            Borrow 100 1 1] empty_library))"
    unfolding run by simp
  show ?thesis
    using lifecycle [OF refl mem, of "Return 118 0"] unfolding run
    by (simp add: returned_def daysLate_def fine_per_day_def return_book_def find_record_def)
qed

text \<open>
  Claim C1. A borrow request succeeds exactly when the book is available, the member is
  ACTIVE and the member has fewer than 3 BORROWED records. When it succeeds, one record
  for that book and member, with status BORROWED, is added; when it fails, the library
  is unchanged, so no record is created.
\<close>

theorem borrow_iff_eligible:
  "((\<exists>r. fst (borrow_book now b m st) = Inr r) \<longleftrightarrow>
      book_available st b \<and> member_active st m \<and> active_count st m < 3) \<and>
   (book_available st b \<and> member_active st m \<and> active_count st m < 3 \<longrightarrow>
      (\<exists>r. fst (borrow_book now b m st) = Inr r \<and>
           lib_records (snd (borrow_book now b m st)) = lib_records st @ [r] \<and>
           book r = b \<and> member r = m \<and> status r = BORROWED)) \<and>
   (\<not> (book_available st b \<and> member_active st m \<and> active_count st m < 3) \<longrightarrow>
      (\<exists>e. fst (borrow_book now b m st) = Inl e) \<and> snd (borrow_book now b m st) = st)"
  by (auto simp: borrow_book_def borrow_limit_def Let_def)

theorem borrow_iff_eligible_witness:
  "fst (borrow_book 100 1 1
      \<lparr>lib_books = [\<lparr>id_book = 1, title_book = ''Emma'', author_book = ''Austen'',
                      availableQuantity = 2, totalQuantity_book = 2,
                      isbn_book = None, category_book = None\<rparr>],
       lib_members = [\<lparr>id_member = 1, name = ''Asha'', email = ''asha@example.org'',
                        membershipId = ''M001'', phone = ''5550100'', registrationDate = 90,
                        status_member = ACTIVE\<rparr>],
       lib_records = [], next_id = 0\<rparr>) =
     Inr \<lparr>id_borrow = 0, book = 1, member = 1, borrowDate = 100, dueDate = 114,
          returnDate = None, fine = 0, status = BORROWED\<rparr> \<and>
   snd (borrow_book 100 1 2
      \<lparr>lib_books = [\<lparr>id_book = 1, title_book = ''Emma'', author_book = ''Austen'',
                      availableQuantity = 2, totalQuantity_book = 2,
                      isbn_book = None, category_book = None\<rparr>],
       lib_members = [\<lparr>id_member = 1, name = ''Asha'', email = ''asha@example.org'',
                        membershipId = ''M001'', phone = ''5550100'', registrationDate = 90,
                        status_member = ACTIVE\<rparr>],
       lib_records = [], next_id = 0\<rparr>) =
      \<lparr>lib_books = [\<lparr>id_book = 1, title_book = ''Emma'', author_book = ''Austen'',
                      availableQuantity = 2, totalQuantity_book = 2,
                      isbn_book = None, category_book = None\<rparr>],
       lib_members = [\<lparr>id_member = 1, name = ''Asha'', email = ''asha@example.org'',
                        membershipId = ''M001'', phone = ''5550100'', registrationDate = 90,
                        status_member = ACTIVE\<rparr>],
       lib_records = [], next_id = 0\<rparr>"
  using borrow_iff_eligible [of 100 1 1
      "\<lparr>lib_books = [\<lparr>id_book = 1, title_book = ''Emma'', author_book = ''Austen'',
                      availableQuantity = 2, totalQuantity_book = 2,
                      isbn_book = None, category_book = None\<rparr>],
       lib_members = [\<lparr>id_member = 1, name = ''Asha'', email = ''asha@example.org'',
                        membershipId = ''M001'', phone = ''5550100'', registrationDate = 90,
                        status_member = ACTIVE\<rparr>],
       lib_records = [], next_id = 0\<rparr>"]
    borrow_iff_eligible [of 100 1 2
      "\<lparr>lib_books = [\<lparr>id_book = 1, title_book = ''Emma'', author_book = ''Austen'',
                      availableQuantity = 2, totalQuantity_book = 2,
                      isbn_book = None, category_book = None\<rparr>],
       lib_members = [\<lparr>id_member = 1, name = ''Asha'', email = ''asha@example.org'',
                        membershipId = ''M001'', phone = ''5550100'', registrationDate = 90,
                        status_member = ACTIVE\<rparr>],
       lib_records = [], next_id = 0\<rparr>"]
  by (simp add: borrow_book_def book_available_def member_active_def active_count_def
      find_book_def find_member_def borrow_limit_def loan_days_def adjust_copies_def Let_def)

text \<open>
  Claim C5. The record created by a successful borrow is due 14 days after its borrow
  date, which is the day of the request. The number of days in the dialog shown after a
  successful borrow, and in the note under the borrow button, is that loan period.
\<close>

theorem due_in_fourteen_days:
  "(fst (borrow_book now b m st) = Inr r \<longrightarrow> borrowDate r = now \<and> dueDate r = borrowDate r + 14) \<and>
   (selectedBook bp \<noteq> [] \<and> selectedMember bp \<noteq> [] \<longrightarrow>
      ''Book borrowed successfully! Due in '' @ decimal (nat loan_days) @ '' days''
        \<in> set (alerts (snd (handleBorrow (Inr d) kr bp)))) \<and>
   due_date_note = ''Due date will be '' @ decimal (nat loan_days) @ '' days from today''"
proof -
  have dec: "decimal (nat loan_days) = ''14''"
    by (simp add: loan_days_def digit_char_def decimal.simps)
  have a: "fst (borrow_book now b m st) = Inr r \<longrightarrow> borrowDate r = now \<and> dueDate r = borrowDate r + 14"
    by (auto simp: borrow_book_def Let_def loan_days_def split: if_splits)
  have b: "selectedBook bp \<noteq> [] \<and> selectedMember bp \<noteq> [] \<longrightarrow>
      ''Book borrowed successfully! Due in 14 days''
        \<in> set (alerts (snd (handleBorrow (Inr d) kr bp)))"
    by (auto simp: handleBorrow_def alerts_def Let_def split: sum.splits)
  show ?thesis using a b by (simp add: dec due_date_note_def)
qed

theorem due_in_fourteen_days_witness:
  "fst (borrow_book 100 1 1
      \<lparr>lib_books = [\<lparr>id_book = 1, title_book = ''Emma'', author_book = ''Austen'',
                      availableQuantity = 2, totalQuantity_book = 2,
                      isbn_book = None, category_book = None\<rparr>],
       lib_members = [\<lparr>id_member = 1, name = ''Asha'', email = ''asha@example.org'',
                        membershipId = ''M001'', phone = ''5550100'', registrationDate = 90,
                        status_member = ACTIVE\<rparr>],
       lib_records = [], next_id = 0\<rparr>) =
     Inr \<lparr>id_borrow = 0, book = 1, member = 1, borrowDate = 100, dueDate = 114,
          returnDate = None, fine = 0, status = BORROWED\<rparr> \<and>
   dueDate \<lparr>id_borrow = 0, book = 1, member = 1, borrowDate = 100, dueDate = 114,
          returnDate = None, fine = 0, status = BORROWED\<rparr> = 100 + 14 \<and>
   ''Book borrowed successfully! Due in 14 days''
     \<in> set (alerts (snd (handleBorrow
         (Inr \<lparr>id_borrow = 0, book = 1, member = 1, borrowDate = 100, dueDate = 114,
               returnDate = None, fine = 0, status = BORROWED\<rparr>) (Inr [])
         \<lparr>books_bp = [], members_bp = [], selectedBook = ''1'', selectedMember = ''1'',
          loading_bp = False\<rparr>)))"
  using due_in_fourteen_days [of 100 1 1
      "\<lparr>lib_books = [\<lparr>id_book = 1, title_book = ''Emma'', author_book = ''Austen'',
                      availableQuantity = 2, totalQuantity_book = 2,
                      isbn_book = None, category_book = None\<rparr>],
       lib_members = [\<lparr>id_member = 1, name = ''Asha'', email = ''asha@example.org'',
                        membershipId = ''M001'', phone = ''5550100'', registrationDate = 90,
                        status_member = ACTIVE\<rparr>],
       lib_records = [], next_id = 0\<rparr>"
      "\<lparr>id_borrow = 0, book = 1, member = 1, borrowDate = 100, dueDate = 114,
          returnDate = None, fine = 0, status = BORROWED\<rparr>"
      "\<lparr>books_bp = [], members_bp = [], selectedBook = ''1'', selectedMember = ''1'',
          loading_bp = False\<rparr>"
      "\<lparr>id_borrow = 0, book = 1, member = 1, borrowDate = 100, dueDate = 114,
               returnDate = None, fine = 0, status = BORROWED\<rparr>" "Inr []"]
  by (simp add: loan_days_def decimal.simps digit_char_def borrow_book_def book_available_def
      member_active_def active_count_def find_book_def find_member_def borrow_limit_def
      adjust_copies_def Let_def)

end
